theory Spec2Isabelle
  imports Main
begin

section \<open>Failures, process state and computations\<close>

text \<open>
  A shallow embedding of \<^verbatim>\<open>src/dwarfs/error.cpp\<close>. C++ \<^verbatim>\<open>int\<close> values (error codes,
  line numbers, exit statuses) are HOL integers: the file does no arithmetic on them.
  Text is a \<^typ>\<open>string\<close>; \<^verbatim>\<open>std::cerr\<close> is the text written so far.
\<close>

text \<open>
  Modelled from the spec: the class \<^verbatim>\<open>dwarfs::system_error\<close> is declared in
  \<^verbatim>\<open>dwarfs/error.h\<close>, which is not among the sources. It is a \<^verbatim>\<open>std::system_error\<close>
  (an OS error code in the generic category, and the text \<^verbatim>\<open>what()\<close> renders) that also
  carries the origin location \<^verbatim>\<open>file_\<close>, \<^verbatim>\<open>line_\<close>.
\<close>

record system_error =
  se_code :: int
  se_what :: string
  se_file :: string
  se_line :: int

text \<open>
  Modelled from the spec: the failure kinds the handlers of \<^verbatim>\<open>safe_main\<close> tell apart.
  \<^verbatim>\<open>dwarfs::error\<close> (also declared in \<^verbatim>\<open>dwarfs/error.h\<close>) carries its dynamic type
  name, its message and its origin location; any other \<^verbatim>\<open>std::exception\<close> carries its
  dynamic type name and its message; \<open>Non_std\<close> is a thrown value that is not derived
  from \<^verbatim>\<open>std::exception\<close>.
\<close>

datatype exn =
    Dwarfs_system_error system_error
  | Dwarfs_error string string string int
  | Std_exception string string
  | Non_std

fun is_std_exception :: "exn \<Rightarrow> bool" where
  "is_std_exception (Dwarfs_system_error e) = True"
| "is_std_exception (Dwarfs_error ty msg file line) = True"
| "is_std_exception (Std_exception ty msg) = True"
| "is_std_exception Non_std = False"

text \<open>
  The process state the file reads and writes: the diagnostic stream, \<^verbatim>\<open>errno\<close>, the
  stack of failures being handled (what the C++ runtime keeps between entering and
  leaving a handler), the global C++ locale and the C locale by the name they were
  last set from, and whether the fatal signal handler and the terminal are set up.
\<close>

record world =
  cerr :: string
  errno :: int
  caught :: "exn list"
  global_locale :: string
  c_locale :: string
  handler_installed :: bool
  terminal_ready :: bool

text \<open>
  A call returns a value, throws, or ends the process (\<^verbatim>\<open>abort\<close>,
  \<^verbatim>\<open>std::terminate\<close>); in each case it leaves a state.
\<close>

datatype 'a outcome = Returns 'a | Throws exn | Terminates

type_synonym 'a comp = "world \<Rightarrow> 'a outcome \<times> world"

definition returns :: "'a \<Rightarrow> 'a comp" where
  "returns x w = (Returns x, w)"

definition throws :: "exn \<Rightarrow> 'a comp" where
  "throws e w = (Throws e, w)"

definition abort :: "'a comp" where
  "abort w = (Terminates, w)"

definition and_then :: "'a comp \<Rightarrow> ('a \<Rightarrow> 'b comp) \<Rightarrow> 'b comp" where
  "and_then m f w =
     (case m w of
        (Returns x, w1) \<Rightarrow> f x w1
      | (Throws e, w1) \<Rightarrow> (Throws e, w1)
      | (Terminates, w1) \<Rightarrow> (Terminates, w1))"

definition seq :: "unit comp \<Rightarrow> 'b comp \<Rightarrow> 'b comp" where
  "seq m k = and_then m (\<lambda>u. k)"

text \<open>
  \<^verbatim>\<open>try { body } catch (...) { ... }\<close>: the clauses are a function that picks the handler
  of a failure, or none when no clause matches and the failure travels on. The handler
  runs with the failure on top of the stack of handled failures, which is popped when
  the handler is left.
\<close>

definition try_catch :: "'a comp \<Rightarrow> (exn \<Rightarrow> 'a comp option) \<Rightarrow> 'a comp" where
  "try_catch body clauses w =
     (case body w of
        (Throws e, w1) \<Rightarrow>
          (case clauses e of
             None \<Rightarrow> (Throws e, w1)
           | Some h \<Rightarrow>
               (case h (w1\<lparr>caught := e # caught w1\<rparr>) of
                  (r, w2) \<Rightarrow> (r, w2\<lparr>caught := tl (caught w2)\<rparr>)))
      | (Returns x, w1) \<Rightarrow> (Returns x, w1)
      | (Terminates, w1) \<Rightarrow> (Terminates, w1))"

text \<open>A function declared \<^verbatim>\<open>noexcept\<close>: a failure leaving it ends the process.\<close>

definition noexcept :: "'a comp \<Rightarrow> 'a comp" where
  "noexcept m w =
     (case m w of
        (Throws e, w1) \<Rightarrow> (Terminates, w1)
      | (Returns x, w1) \<Rightarrow> (Returns x, w1)
      | (Terminates, w1) \<Rightarrow> (Terminates, w1))"

text \<open>\<^verbatim>\<open>std::cerr << s\<close>; the stream's exception mask is the default one, so it never throws.\<close>

definition write_cerr :: "string \<Rightarrow> unit comp" where
  "write_cerr s w = (Returns (), w\<lparr>cerr := cerr w @ s\<rparr>)"

definition nl :: string where
  "nl = [CHR 0x0A]"

definition backquote :: string where
  "backquote = [CHR 0x60]"

definition dquote :: string where
  "dquote = [CHR 0x22]"

text \<open>\<^verbatim>\<open>std::cerr << n\<close> for an \<^verbatim>\<open>int\<close>: decimal digits, a minus sign when negative.\<close>

fun show_nat :: "nat \<Rightarrow> string" where
  "show_nat n =
     (if n < 10 then [''0123456789'' ! n]
      else show_nat (n div 10) @ [''0123456789'' ! (n mod 10)])"

declare show_nat.simps [simp del]

definition show_int :: "int \<Rightarrow> string" where
  "show_int i = (if i < 0 then CHR ''-'' # show_nat (nat (- i)) else show_nat (nat i))"

text \<open>The number of lines of a text: its newline characters.\<close>

definition count_lines :: "string \<Rightarrow> nat" where
  "count_lines s = length (filter (\<lambda>c. c = CHR 0x0A) s)"

section \<open>The platform\<close>

text \<open>
  What the file takes from its build configuration and from the libraries it calls,
  none of which is among the sources: the two preprocessor symbols; the text
  \<^verbatim>\<open>std::generic_category().message\<close> gives for a code; for every library call that
  may throw, the failure it throws (\<open>None\<close>: it returns); whether
  \<^verbatim>\<open>std::setlocale\<close> succeeds for a locale name; and the text folly's exception tracer
  prints for one entry of \<^verbatim>\<open>getCurrentExceptions()\<close>.
\<close>

record platform =
  is_win32 :: bool
  use_exception_tracer :: bool
  generic_message :: "int \<Rightarrow> string"
  std_system_error_raises :: "int \<Rightarrow> string option \<Rightarrow> exn option"
  install_handler_raises :: "exn option"
  locale_ctor_raises :: "string \<Rightarrow> exn option"
  global_classic_raises :: "exn option"
  setlocale_ok :: "string \<Rightarrow> bool"
  setup_terminal_raises :: "exn option"
  render_exception_info :: "exn \<Rightarrow> string"

section \<open>Constructors of \<^verbatim>\<open>system_error\<close>\<close>

text \<open>
  \<^verbatim>\<open>s.c_str()\<close> handed to a \<^verbatim>\<open>char const*\<close> parameter: the text up to the first NUL.
\<close>

definition c_str :: "string \<Rightarrow> string" where
  "c_str s = takeWhile (\<lambda>c. c \<noteq> CHR 0x00) s"

text \<open>
  The base class constructor \<^verbatim>\<open>std::system_error(err, std::generic_category()[, what])\<close>
  of the standard library: \<^verbatim>\<open>code()\<close> is \<open>err\<close>, and \<^verbatim>\<open>what()\<close> is the category's message
  for \<open>err\<close>, after the text \<open>what\<close> and \<^verbatim>\<open>": "\<close> when one is given. It may throw (it
  allocates the text).
\<close>

definition std_system_error_what :: "platform \<Rightarrow> int \<Rightarrow> string option \<Rightarrow> string" where
  "std_system_error_what P err what_arg =
     (case what_arg of
        None \<Rightarrow> generic_message P err
      | Some s \<Rightarrow> s @ '': '' @ generic_message P err)"

definition std_system_error :: "platform \<Rightarrow> int \<Rightarrow> string option \<Rightarrow> (int \<times> string) comp" where
  "std_system_error P err what_arg =
     (case std_system_error_raises P err what_arg of
        Some e \<Rightarrow> throws e
      | None \<Rightarrow> returns (err, std_system_error_what P err what_arg))"

text \<open>
  Lines 46-50: \<^verbatim>\<open>system_error(std::string const& s, int err, char const* file, int line) noexcept\<close>.
\<close>

definition system_error_msg_code ::
  "platform \<Rightarrow> string \<Rightarrow> int \<Rightarrow> string \<Rightarrow> int \<Rightarrow> system_error comp" where
  "system_error_msg_code P s err file line =
     noexcept
       (and_then (std_system_error P err (Some (c_str s)))
          (\<lambda>(c, wh). returns \<lparr>se_code = c, se_what = wh, se_file = file, se_line = line\<rparr>))"

text \<open>
  Lines 52-55: \<^verbatim>\<open>system_error(int err, char const* file, int line) noexcept\<close>.
\<close>

definition system_error_code ::
  "platform \<Rightarrow> int \<Rightarrow> string \<Rightarrow> int \<Rightarrow> system_error comp" where
  "system_error_code P err file line =
     noexcept
       (and_then (std_system_error P err None)
          (\<lambda>(c, wh). returns \<lparr>se_code = c, se_what = wh, se_file = file, se_line = line\<rparr>))"

text \<open>
  Lines 39-40: \<^verbatim>\<open>system_error(char const* file, int line) noexcept\<close> reads \<^verbatim>\<open>errno\<close> and
  delegates to the constructor that takes a code.
\<close>

definition system_error_here :: "platform \<Rightarrow> string \<Rightarrow> int \<Rightarrow> system_error comp" where
  "system_error_here P file line =
     noexcept (\<lambda>w. system_error_code P (errno w) file line w)"

text \<open>
  Lines 42-44: \<^verbatim>\<open>system_error(std::string const& s, char const* file, int line) noexcept\<close>
  reads \<^verbatim>\<open>errno\<close> and delegates to the constructor that takes a message and a code.
\<close>

definition system_error_msg :: "platform \<Rightarrow> string \<Rightarrow> string \<Rightarrow> int \<Rightarrow> system_error comp" where
  "system_error_msg P s file line =
     noexcept (\<lambda>w. system_error_msg_code P s (errno w) file line w)"

section \<open>Diagnostics\<close>

text \<open>
  \<^verbatim>\<open>folly::exceptionStr(std::exception const&)\<close> of the folly library: the demangled
  dynamic type name, \<^verbatim>\<open>": "\<close> and \<^verbatim>\<open>what()\<close>. The source calls it only on failures that
  are a \<^verbatim>\<open>std::exception\<close>; the last clause is never evaluated by it.
\<close>

fun exceptionStr :: "exn \<Rightarrow> string" where
  "exceptionStr (Dwarfs_system_error e) = ''dwarfs::system_error: '' @ se_what e"
| "exceptionStr (Dwarfs_error ty msg file line) = ty @ '': '' @ msg"
| "exceptionStr (Std_exception ty msg) = ty @ '': '' @ msg"
| "exceptionStr Non_std = []"

text \<open>
  \<^verbatim>\<open>folly::exception_tracer::getCurrentExceptions()\<close>: the failures being handled, the
  innermost first.
\<close>

definition getCurrentExceptions :: "exn list comp" where
  "getCurrentExceptions w = (Returns (caught w), w)"

text \<open>Lines 60-62: the loop over the failures.\<close>

fun dump_each :: "platform \<Rightarrow> exn list \<Rightarrow> unit comp" where
  "dump_each P [] = returns ()"
| "dump_each P (exc # rest) =
     seq (write_cerr (render_exception_info P exc @ nl)) (dump_each P rest)"

text \<open>Lines 57-66: \<^verbatim>\<open>dump_exceptions\<close>.\<close>

definition dump_exceptions :: "platform \<Rightarrow> unit comp" where
  "dump_exceptions P =
     (if use_exception_tracer P then and_then getCurrentExceptions (dump_each P)
      else write_cerr (''cannot dump exceptions'' @ nl))"

text \<open>Lines 75-80: \<^verbatim>\<open>assertion_failed\<close>.\<close>

definition assertion_failed :: "string \<Rightarrow> string \<Rightarrow> string \<Rightarrow> int \<Rightarrow> unit comp" where
  "assertion_failed expr msg file line =
     seq (write_cerr (''Assertion '' @ backquote @ expr @ backquote @ '' failed in '' @ file
            @ ''('' @ show_int line @ ''): '' @ msg @ nl))
       abort"

text \<open>
  The line shape the specification gives for an assertion failure,
  \<^verbatim>\<open>Assertion <condition> failed in <file>(<line>): <message>\<close>, written out as it
  stands there.
\<close>

definition spec_assertion_line :: "string \<Rightarrow> string \<Rightarrow> string \<Rightarrow> int \<Rightarrow> string" where
  "spec_assertion_line expr msg file line =
     ''Assertion '' @ expr @ '' failed in '' @ file @ ''('' @ show_int line @ ''): '' @ msg @ nl"

section \<open>The entry harness\<close>

text \<open>Lines 87-91: the locale name.\<close>

definition locale_name :: "platform \<Rightarrow> string" where
  "locale_name P = (if is_win32 P then ''en_US.utf8'' else [])"

text \<open>
  The calls into folly, the standard library and \<^verbatim>\<open>dwarfs/terminal.h\<close>, with the
  outcome the platform gives them.
\<close>

definition installFatalSignalHandler :: "platform \<Rightarrow> unit comp" where
  "installFatalSignalHandler P =
     (case install_handler_raises P of
        Some e \<Rightarrow> throws e
      | None \<Rightarrow> (\<lambda>w. (Returns (), w\<lparr>handler_installed := True\<rparr>)))"

definition locale_global_named :: "platform \<Rightarrow> string \<Rightarrow> unit comp" where
  "locale_global_named P name =
     (case locale_ctor_raises P name of
        Some e \<Rightarrow> throws e
      | None \<Rightarrow> (\<lambda>w. (Returns (), w\<lparr>global_locale := name\<rparr>)))"

definition locale_global_classic :: "platform \<Rightarrow> unit comp" where
  "locale_global_classic P =
     (case global_classic_raises P of
        Some e \<Rightarrow> throws e
      | None \<Rightarrow> (\<lambda>w. (Returns (), w\<lparr>global_locale := ''C''\<rparr>)))"

definition setlocale_all :: "platform \<Rightarrow> string \<Rightarrow> bool comp" where
  "setlocale_all P name w =
     (if setlocale_ok P name then (Returns True, w\<lparr>c_locale := name\<rparr>)
      else (Returns False, w))"

definition setup_terminal :: "platform \<Rightarrow> unit comp" where
  "setup_terminal P =
     (case setup_terminal_raises P of
        Some e \<Rightarrow> throws e
      | None \<Rightarrow> (\<lambda>w. (Returns (), w\<lparr>terminal_ready := True\<rparr>)))"

text \<open>Lines 96-100: the handler of the first locale failure.\<close>

definition classic_locale_fallback :: "platform \<Rightarrow> unit comp" where
  "classic_locale_fallback P =
     seq (write_cerr (''warning: failed to set user default locale'' @ nl))
       (try_catch (locale_global_classic P)
          (\<lambda>e. if is_std_exception e
                then Some (write_cerr (''warning: also failed to set classic locale'' @ nl))
                else None))"

text \<open>Lines 92-101: the global C++ locale, with its fallback.\<close>

definition set_global_locale :: "platform \<Rightarrow> unit comp" where
  "set_global_locale P =
     try_catch (locale_global_named P (locale_name P))
       (\<lambda>e. if is_std_exception e then Some (classic_locale_fallback P) else None)"

text \<open>Lines 103-105: the C locale.\<close>

definition set_c_locale :: "platform \<Rightarrow> unit comp" where
  "set_c_locale P =
     and_then (setlocale_all P (locale_name P))
       (\<lambda>ok. if \<not> ok
              then write_cerr (''warning: setlocale(LC_ALL, '' @ dquote @ dquote @ '') failed'' @ nl)
              else returns ())"

text \<open>Lines 84-107: everything the \<^verbatim>\<open>try\<close> block does before it calls the entry point.\<close>

definition safe_main_setup :: "platform \<Rightarrow> unit comp" where
  "safe_main_setup P =
     seq (if is_win32 P then returns () else installFatalSignalHandler P)
       (seq (set_global_locale P)
          (seq (set_c_locale P) (setup_terminal P)))"

text \<open>Lines 110-123: the handlers of the outer \<^verbatim>\<open>try\<close>, in the order of the clauses.\<close>

fun safe_main_handler :: "platform \<Rightarrow> exn \<Rightarrow> unit comp" where
  "safe_main_handler P (Dwarfs_system_error e) =
     seq (write_cerr (''ERROR: '' @ exceptionStr (Dwarfs_system_error e) @ '' ['' @ se_file e
            @ '':'' @ show_int (se_line e) @ '']'' @ nl))
       (dump_exceptions P)"
| "safe_main_handler P (Dwarfs_error ty msg file line) =
     seq (write_cerr (''ERROR: '' @ exceptionStr (Dwarfs_error ty msg file line) @ '' ['' @ file
            @ '':'' @ show_int line @ '']'' @ nl))
       (dump_exceptions P)"
| "safe_main_handler P (Std_exception ty msg) =
     seq (write_cerr (''ERROR: '' @ exceptionStr (Std_exception ty msg) @ nl))
       (dump_exceptions P)"
| "safe_main_handler P Non_std = dump_exceptions P"

text \<open>
  Lines 111-112, 115-116 and 119: the line a handler writes before it calls
  \<^verbatim>\<open>dump_exceptions\<close>; the last handler writes none.
\<close>

fun headline :: "exn \<Rightarrow> string" where
  "headline (Dwarfs_system_error e) =
     ''ERROR: '' @ exceptionStr (Dwarfs_system_error e) @ '' ['' @ se_file e
       @ '':'' @ show_int (se_line e) @ '']'' @ nl"
| "headline (Dwarfs_error ty msg file line) =
     ''ERROR: '' @ exceptionStr (Dwarfs_error ty msg file line) @ '' ['' @ file
       @ '':'' @ show_int line @ '']'' @ nl"
| "headline (Std_exception ty msg) = ''ERROR: '' @ exceptionStr (Std_exception ty msg) @ nl"
| "headline Non_std = []"

text \<open>
  Lines 83 and 110-124: the outer \<^verbatim>\<open>try\<close> around a block, and \<^verbatim>\<open>return 1\<close> after it.
  The block leaves the function with its value (\<open>Some n\<close>); every failure has a
  handler, and a handler falls through (\<open>None\<close>) to \<^verbatim>\<open>return 1\<close>.
\<close>

definition safe_main_boundary :: "platform \<Rightarrow> int comp \<Rightarrow> int comp" where
  "safe_main_boundary P block =
     and_then
       (try_catch
          (and_then block (\<lambda>n. returns (Some n)))
          (\<lambda>e. Some (seq (safe_main_handler P e) (returns None))))
       (\<lambda>r. case r of Some n \<Rightarrow> returns n | None \<Rightarrow> returns 1)"

text \<open>Lines 82-125: \<^verbatim>\<open>safe_main\<close>; the block is the setup and then \<^verbatim>\<open>return fn()\<close>.\<close>

definition safe_main :: "platform \<Rightarrow> int comp \<Rightarrow> int comp" where
  "safe_main P fn = safe_main_boundary P (seq (safe_main_setup P) fn)"

section \<open>Platforms and a process state to evaluate the definitions on\<close>

text \<open>
  A POSIX build without the exception tracer on which every library call succeeds, the
  same build with the tracer, a fresh process state, and variants of the first platform
  on which one library call fails: the locale constructor (with a \<^verbatim>\<open>std::exception\<close>,
  or with a value that is none), the classic locale as well, the terminal setup, the
  installation of the signal handler, and the allocation in the base class constructor.
\<close>

definition posix_platform :: platform where
  "posix_platform =
     \<lparr>is_win32 = False, use_exception_tracer = False,
      generic_message = (\<lambda>e. if e = 2 then ''No such file or directory'' else ''Unknown error''),
      std_system_error_raises = (\<lambda>e m. None),
      install_handler_raises = None,
      locale_ctor_raises = (\<lambda>n. None),
      global_classic_raises = None,
      setlocale_ok = (\<lambda>n. True),
      setup_terminal_raises = None,
      render_exception_info =
        (\<lambda>e. ''Exception type: '' @
           (case e of
              Dwarfs_system_error x \<Rightarrow> ''dwarfs::system_error''
            | Dwarfs_error ty msg file line \<Rightarrow> ty
            | Std_exception ty msg \<Rightarrow> ty
            | Non_std \<Rightarrow> ''(unknown type)''))\<rparr>"

definition tracer_platform :: platform where
  "tracer_platform = posix_platform\<lparr>use_exception_tracer := True\<rparr>"

text \<open>
  The tracer build with a printer that does what folly's does for a failure with no
  recorded stack frames: the line \<^verbatim>\<open>Exception type: <type> (0 frames)\<close>, newline
  included.
\<close>

definition folly_platform :: platform where
  "folly_platform =
     posix_platform\<lparr>use_exception_tracer := True,
       render_exception_info :=
         (\<lambda>e. ''Exception type: '' @
            (case e of
               Dwarfs_system_error x \<Rightarrow> ''dwarfs::system_error''
             | Dwarfs_error ty msg file line \<Rightarrow> ty
             | Std_exception ty msg \<Rightarrow> ty
             | Non_std \<Rightarrow> ''(unknown type)'') @ '' (0 frames)'' @ nl)\<rparr>"

definition initial_world :: world where
  "initial_world =
     \<lparr>cerr = [], errno = 0, caught = [], global_locale = ''C'', c_locale = ''C'',
      handler_installed = False, terminal_ready = False\<rparr>"

definition bad_locale_platform :: platform where
  "bad_locale_platform =
     posix_platform\<lparr>locale_ctor_raises :=
       (\<lambda>n. Some (Std_exception ''std::runtime_error'' ''locale name not valid''))\<rparr>"

definition no_locale_platform :: platform where
  "no_locale_platform =
     bad_locale_platform\<lparr>global_classic_raises :=
       Some (Std_exception ''std::runtime_error'' ''no classic locale'')\<rparr>"

definition no_terminal_platform :: platform where
  "no_terminal_platform = posix_platform\<lparr>setup_terminal_raises := Some Non_std\<rparr>"

definition no_handler_platform :: platform where
  "no_handler_platform =
     posix_platform\<lparr>install_handler_raises :=
       Some (Std_exception ''std::runtime_error'' ''sigaction failed'')\<rparr>"

definition odd_locale_platform :: platform where
  "odd_locale_platform =
     posix_platform\<lparr>locale_ctor_raises := (\<lambda>n. Some Non_std)\<rparr>"

definition no_memory_platform :: platform where
  "no_memory_platform =
     posix_platform\<lparr>std_system_error_raises :=
       (\<lambda>e m. Some (Std_exception ''std::bad_alloc'' ''std::bad_alloc''))\<rparr>"

section \<open>Auxiliary facts\<close>

lemma and_then_returns [simp]: "and_then (returns x) f = f x"
  by (rule ext) (simp add: and_then_def returns_def)

lemma and_then_throws [simp]: "and_then (throws e) f = throws e"
  by (rule ext) (simp add: and_then_def throws_def)

lemma noexcept_returns [simp]: "noexcept (returns x) = returns x"
  by (rule ext) (simp add: noexcept_def returns_def)

lemma noexcept_throws [simp]: "noexcept (throws e) = abort"
  by (rule ext) (simp add: noexcept_def throws_def abort_def)

lemma noexcept_never_throws: "fst (noexcept m w) \<noteq> Throws e"
  by (simp add: noexcept_def split: prod.splits outcome.splits)

lemma noexcept_idem [simp]: "noexcept (noexcept m) = noexcept m"
  by (rule ext) (simp add: noexcept_def split: prod.splits outcome.splits)

lemma system_error_code_cases:
  "system_error_code P err file line =
     (case std_system_error_raises P err None of
        Some e \<Rightarrow> abort
      | None \<Rightarrow> returns \<lparr>se_code = err, se_what = generic_message P err,
                          se_file = file, se_line = line\<rparr>)"
  by (simp add: system_error_code_def std_system_error_def std_system_error_what_def
      split: option.splits)

lemma system_error_msg_code_cases:
  "system_error_msg_code P s err file line =
     (case std_system_error_raises P err (Some (c_str s)) of
        Some e \<Rightarrow> abort
      | None \<Rightarrow> returns \<lparr>se_code = err, se_what = c_str s @ '': '' @ generic_message P err,
                          se_file = file, se_line = line\<rparr>)"
  by (simp add: system_error_msg_code_def std_system_error_def std_system_error_what_def
      split: option.splits)

lemma system_error_here_eq:
  "system_error_here P file line w = system_error_code P (errno w) file line w"
  by (simp add: system_error_here_def noexcept_def system_error_code_cases returns_def abort_def
      split: option.splits)

lemma system_error_msg_eq:
  "system_error_msg P s file line w = system_error_msg_code P s (errno w) file line w"
  by (simp add: system_error_msg_def noexcept_def system_error_msg_code_cases returns_def abort_def
      split: option.splits)

lemma dump_each_writes:
  "dump_each P xs w =
     (Returns (), w\<lparr>cerr := cerr w @ concat (map (\<lambda>e. render_exception_info P e @ nl) xs)\<rparr>)"
proof (induction xs arbitrary: w)
  case Nil
  show ?case by (simp add: returns_def)
next
  case (Cons x xs)
  show ?case by (simp add: seq_def and_then_def write_cerr_def Cons.IH)
qed

lemma dump_exceptions_writes:
  "dump_exceptions P w =
     (Returns (), w\<lparr>cerr := cerr w @
        (if use_exception_tracer P
         then concat (map (\<lambda>e. render_exception_info P e @ nl) (caught w))
         else ''cannot dump exceptions'' @ nl)\<rparr>)"
  by (simp add: dump_exceptions_def and_then_def getCurrentExceptions_def dump_each_writes
      write_cerr_def)

lemma count_lines_append: "count_lines (a @ b) = count_lines a + count_lines b"
  by (simp add: count_lines_def)

lemma count_lines_nl: "count_lines nl = 1"
  by (simp add: count_lines_def nl_def)

lemma count_lines_Nil: "count_lines [] = 0"
  by (simp add: count_lines_def)

lemma count_lines_entries:
  "count_lines (concat (map (\<lambda>x. f x @ nl) xs)) =
     length xs + sum_list (map (\<lambda>x. count_lines (f x)) xs)"
  by (induction xs) (simp_all add: count_lines_append count_lines_nl count_lines_Nil)

lemma safe_main_handler_writes:
  "safe_main_handler P e w =
     (Returns (), w\<lparr>cerr := cerr w @ headline e @
        (if use_exception_tracer P
         then concat (map (\<lambda>e. render_exception_info P e @ nl) (caught w))
         else ''cannot dump exceptions'' @ nl)\<rparr>)"
  by (cases e) (simp_all add: seq_def and_then_def write_cerr_def dump_exceptions_writes)

lemma boundary_returns:
  "block w = (Returns n, w1) \<Longrightarrow> safe_main_boundary P block w = (Returns n, w1)"
  by (simp add: safe_main_boundary_def and_then_def try_catch_def returns_def)

lemma boundary_terminates:
  "block w = (Terminates, w1) \<Longrightarrow> safe_main_boundary P block w = (Terminates, w1)"
  by (simp add: safe_main_boundary_def and_then_def try_catch_def returns_def)

lemma boundary_throws:
  "block w = (Throws e, w1) \<Longrightarrow>
   safe_main_boundary P block w =
     (Returns 1, w1\<lparr>cerr := cerr w1 @ headline e @
        (if use_exception_tracer P
         then concat (map (\<lambda>x. render_exception_info P x @ nl) (e # caught w1))
         else ''cannot dump exceptions'' @ nl)\<rparr>)"
  by (simp add: safe_main_boundary_def and_then_def try_catch_def returns_def seq_def
      safe_main_handler_writes)

lemma safe_main_after_setup:
  "safe_main_setup P w = (Returns (), w1) \<Longrightarrow> safe_main P fn w = safe_main_boundary P fn w1"
  by (simp add: safe_main_def safe_main_boundary_def and_then_def try_catch_def seq_def)

lemma safe_main_setup_throws:
  "safe_main_setup P w = (Throws e, w1) \<Longrightarrow>
   safe_main P fn w = safe_main_boundary P (throws e) w1"
  by (simp add: safe_main_def safe_main_boundary_def and_then_def try_catch_def seq_def throws_def)

lemma set_c_locale_result:
  "set_c_locale P w =
     (Returns (),
      if setlocale_ok P (locale_name P) then w\<lparr>c_locale := locale_name P\<rparr>
      else w\<lparr>cerr := cerr w @ ''warning: setlocale(LC_ALL, '' @ dquote @ dquote @ '') failed'' @ nl\<rparr>)"
  by (simp add: set_c_locale_def and_then_def setlocale_all_def write_cerr_def returns_def)

lemma set_global_locale_ok:
  "locale_ctor_raises P (locale_name P) = None \<Longrightarrow>
   set_global_locale P w = (Returns (), w\<lparr>global_locale := locale_name P\<rparr>)"
  by (simp add: set_global_locale_def try_catch_def locale_global_named_def)

lemma set_global_locale_unguarded:
  "locale_ctor_raises P (locale_name P) = Some e \<Longrightarrow> \<not> is_std_exception e \<Longrightarrow>
   set_global_locale P w = (Throws e, w)"
  by (simp add: set_global_locale_def try_catch_def locale_global_named_def throws_def)

lemma set_global_locale_fallback:
  "locale_ctor_raises P (locale_name P) = Some e \<Longrightarrow> is_std_exception e \<Longrightarrow>
   global_classic_raises P = None \<Longrightarrow>
   set_global_locale P w =
     (Returns (), w\<lparr>cerr := cerr w @ ''warning: failed to set user default locale'' @ nl,
                    global_locale := ''C''\<rparr>)"
  by (simp add: set_global_locale_def try_catch_def locale_global_named_def throws_def
      classic_locale_fallback_def seq_def and_then_def write_cerr_def locale_global_classic_def)

lemma set_global_locale_both_fail:
  "locale_ctor_raises P (locale_name P) = Some e \<Longrightarrow> is_std_exception e \<Longrightarrow>
   global_classic_raises P = Some e2 \<Longrightarrow> is_std_exception e2 \<Longrightarrow>
   set_global_locale P w =
     (Returns (), w\<lparr>cerr := cerr w @ ''warning: failed to set user default locale'' @ nl
                      @ ''warning: also failed to set classic locale'' @ nl\<rparr>)"
  by (simp add: set_global_locale_def try_catch_def locale_global_named_def throws_def
      classic_locale_fallback_def seq_def and_then_def write_cerr_def locale_global_classic_def)

lemma set_global_locale_classic_unguarded:
  "locale_ctor_raises P (locale_name P) = Some e \<Longrightarrow> is_std_exception e \<Longrightarrow>
   global_classic_raises P = Some e2 \<Longrightarrow> \<not> is_std_exception e2 \<Longrightarrow>
   set_global_locale P w =
     (Throws e2, w\<lparr>cerr := cerr w @ ''warning: failed to set user default locale'' @ nl\<rparr>)"
  by (simp add: set_global_locale_def try_catch_def locale_global_named_def throws_def
      classic_locale_fallback_def seq_def and_then_def write_cerr_def locale_global_classic_def)

lemma install_step_result:
  "is_win32 P \<or> install_handler_raises P = None \<Longrightarrow>
   (if is_win32 P then returns () else installFatalSignalHandler P) w =
     (Returns (), if is_win32 P then w else w\<lparr>handler_installed := True\<rparr>)"
  by (auto simp: returns_def installFatalSignalHandler_def)

lemma setup_after_locale:
  "is_win32 P \<or> install_handler_raises P = None \<Longrightarrow>
   setup_terminal_raises P = None \<Longrightarrow>
   set_global_locale P (if is_win32 P then w else w\<lparr>handler_installed := True\<rparr>) = (Returns (), w1) \<Longrightarrow>
   safe_main_setup P w =
     (Returns (), (snd (set_c_locale P w1))\<lparr>terminal_ready := True\<rparr>)"
  by (simp add: safe_main_setup_def seq_def and_then_def install_step_result
      set_c_locale_result setup_terminal_def)

lemma boundary_never_throws: "fst (safe_main_boundary P block w) \<noteq> Throws e"
proof (cases "block w")
  case (Pair r w1)
  then show ?thesis
    by (cases r) (simp_all add: boundary_returns boundary_throws boundary_terminates)
qed

lemma posix_setup:
  "safe_main_setup posix_platform initial_world =
     (Returns (), initial_world\<lparr>global_locale := [], c_locale := [],
                                 handler_installed := True, terminal_ready := True\<rparr>)"
  by (simp add: safe_main_setup_def seq_def and_then_def installFatalSignalHandler_def
      set_global_locale_def try_catch_def locale_global_named_def locale_name_def
      set_c_locale_def setlocale_all_def setup_terminal_def returns_def
      posix_platform_def initial_world_def)

lemma platform_setup_simps:
  "safe_main_setup P w =
     (case (if is_win32 P then returns () else installFatalSignalHandler P) w of
        (Returns u, wa) \<Rightarrow>
          (case set_global_locale P wa of
             (Returns u, wb) \<Rightarrow> setup_terminal P (snd (set_c_locale P wb))
           | (Throws e, wb) \<Rightarrow> (Throws e, wb)
           | (Terminates, wb) \<Rightarrow> (Terminates, wb))
      | (Throws e, wa) \<Rightarrow> (Throws e, wa)
      | (Terminates, wa) \<Rightarrow> (Terminates, wa))"
  by (simp add: safe_main_setup_def seq_def and_then_def set_c_locale_result
      split: prod.splits outcome.splits)

lemma setup_throws_from_install:
  "\<not> is_win32 P \<Longrightarrow> install_handler_raises P = Some e \<Longrightarrow>
   safe_main_setup P w = (Throws e, w)"
  by (simp add: platform_setup_simps installFatalSignalHandler_def throws_def)

lemma setup_throws_from_locale:
  "is_win32 P \<or> install_handler_raises P = None \<Longrightarrow>
   locale_ctor_raises P (locale_name P) = Some e \<Longrightarrow> \<not> is_std_exception e \<Longrightarrow>
   safe_main_setup P w =
     (Throws e, if is_win32 P then w else w\<lparr>handler_installed := True\<rparr>)"
  by (simp add: platform_setup_simps install_step_result set_global_locale_unguarded)

lemma setup_throws_from_terminal:
  "is_win32 P \<or> install_handler_raises P = None \<Longrightarrow>
   set_global_locale P (if is_win32 P then w else w\<lparr>handler_installed := True\<rparr>) = (Returns (), w1) \<Longrightarrow>
   setup_terminal_raises P = Some e \<Longrightarrow>
   safe_main_setup P w = (Throws e, snd (set_c_locale P w1))"
  by (simp add: platform_setup_simps install_step_result setup_terminal_def throws_def)

section \<open>The properties\<close>

text \<open>
  C1. When the setup of \<^verbatim>\<open>safe_main\<close> has returned and the entry point throws a
  \<^verbatim>\<open>dwarfs::system_error\<close> built for the code \<open>E\<close> (with or without a message) at
  \<open>F\<close>, \<open>L\<close>, then \<^verbatim>\<open>safe_main\<close> returns 1 and has appended to \<^verbatim>\<open>std::cerr\<close> the
  line \<^verbatim>\<open>ERROR: <description> [F:L]\<close> and then what \<^verbatim>\<open>dump_exceptions\<close> writes with the
  failure on the stack of handled failures; the description ends with the text the
  generic category gives for \<open>E\<close>.
\<close>

theorem system_error_is_reported:
  assumes st: "safe_main_setup P w = (Returns (), w1)"
    and raised: "fn w1 = (Throws (Dwarfs_system_error se), w2)"
    and obj: "se = \<lparr>se_code = E, se_what = std_system_error_what P E m,
                     se_file = F, se_line = L\<rparr>"
  shows "safe_main P fn w =
           (Returns 1,
            w2\<lparr>cerr := cerr w2
               @ ''ERROR: '' @ (''dwarfs::system_error: '' @ std_system_error_what P E m)
               @ '' ['' @ F @ '':'' @ show_int L @ '']'' @ nl
               @ (if use_exception_tracer P
                  then concat (map (\<lambda>x. render_exception_info P x @ nl)
                                 (Dwarfs_system_error se # caught w2))
                  else ''cannot dump exceptions'' @ nl)\<rparr>)
         \<and> (\<exists>pre. std_system_error_what P E m = pre @ generic_message P E)"
proof
  show "safe_main P fn w =
           (Returns 1,
            w2\<lparr>cerr := cerr w2
               @ ''ERROR: '' @ (''dwarfs::system_error: '' @ std_system_error_what P E m)
               @ '' ['' @ F @ '':'' @ show_int L @ '']'' @ nl
               @ (if use_exception_tracer P
                  then concat (map (\<lambda>x. render_exception_info P x @ nl)
                                 (Dwarfs_system_error se # caught w2))
                  else ''cannot dump exceptions'' @ nl)\<rparr>)"
    using boundary_throws [of fn w1 "Dwarfs_system_error se" w2 P] raised obj
    by (simp add: safe_main_after_setup [OF st])
  show "\<exists>pre. std_system_error_what P E m = pre @ generic_message P E"
  proof (cases m)
    case None
    then have "std_system_error_what P E m = [] @ generic_message P E"
      by (simp add: std_system_error_what_def)
    then show ?thesis by blast
  next
    case (Some s)
    then have "std_system_error_what P E m = (s @ '': '') @ generic_message P E"
      by (simp add: std_system_error_what_def)
    then show ?thesis by blast
  qed
qed

theorem system_error_is_reported_witness:
  "safe_main posix_platform
     (throws (Dwarfs_system_error
        \<lparr>se_code = 2, se_what = ''open: No such file or directory'',
         se_file = ''file.cpp'', se_line = 42\<rparr>))
     initial_world =
   (Returns 1,
    initial_world\<lparr>cerr :=
        ''ERROR: dwarfs::system_error: open: No such file or directory [file.cpp:42]'' @ nl
        @ ''cannot dump exceptions'' @ nl,
      global_locale := [], c_locale := [],
      handler_installed := True, terminal_ready := True\<rparr>)"
proof -
  have h2: "throws (Dwarfs_system_error
        \<lparr>se_code = 2, se_what = ''open: No such file or directory'',
         se_file = ''file.cpp'', se_line = 42\<rparr>)
      (initial_world\<lparr>global_locale := [], c_locale := [],
                                 handler_installed := True, terminal_ready := True\<rparr>)
     = (Throws (Dwarfs_system_error
        \<lparr>se_code = 2, se_what = ''open: No such file or directory'',
         se_file = ''file.cpp'', se_line = 42\<rparr>),
        initial_world\<lparr>global_locale := [], c_locale := [],
                                 handler_installed := True, terminal_ready := True\<rparr>)"
    by (simp add: throws_def)
  have h3: "\<lparr>se_code = 2, se_what = ''open: No such file or directory'',
         se_file = ''file.cpp'', se_line = 42\<rparr>
      = \<lparr>se_code = 2, se_what = std_system_error_what posix_platform 2 (Some ''open''),
         se_file = ''file.cpp'', se_line = 42\<rparr>"
    by (simp add: std_system_error_what_def posix_platform_def)
  show ?thesis
    using system_error_is_reported [where fn = "throws (Dwarfs_system_error
        \<lparr>se_code = 2, se_what = ''open: No such file or directory'',
         se_file = ''file.cpp'', se_line = 42\<rparr>)" and m = "Some ''open''", OF posix_setup h2 h3]
    by (simp add: std_system_error_what_def posix_platform_def initial_world_def
        show_int_def show_nat.simps)
qed

text \<open>
  C2. When the setup has returned and the entry point returns \<open>n\<close>, \<^verbatim>\<open>safe_main\<close>
  returns \<open>n\<close> and leaves the state as the entry point left it: no handler runs and
  nothing more is written.
\<close>

theorem entry_value_is_exit_status:
  assumes "safe_main_setup P w = (Returns (), w1)"
    and "fn w1 = (Returns n, w2)"
  shows "safe_main P fn w = (Returns n, w2)"
  using assms by (simp add: safe_main_after_setup boundary_returns)

theorem entry_value_is_exit_status_witness:
  "safe_main posix_platform (returns 42) initial_world =
     (Returns 42, initial_world\<lparr>global_locale := [], c_locale := [],
                                  handler_installed := True, terminal_ready := True\<rparr>)"
  using entry_value_is_exit_status [OF posix_setup, of "returns 42" 42]
  by (simp add: returns_def)

text \<open>
  C3. When the setup has returned and the entry point throws a value that is not a
  \<^verbatim>\<open>std::exception\<close>, \<^verbatim>\<open>safe_main\<close> returns 1, the text it has appended to
  \<^verbatim>\<open>std::cerr\<close> is what \<^verbatim>\<open>dump_exceptions\<close> writes and is not empty, and no failure
  leaves \<^verbatim>\<open>safe_main\<close>.
\<close>

theorem unclassified_failure_is_contained:
  assumes "safe_main_setup P w = (Returns (), w1)"
    and "fn w1 = (Throws Non_std, w2)"
  shows "safe_main P fn w =
           (Returns 1,
            w2\<lparr>cerr := cerr w2
               @ (if use_exception_tracer P
                  then concat (map (\<lambda>x. render_exception_info P x @ nl) (Non_std # caught w2))
                  else ''cannot dump exceptions'' @ nl)\<rparr>)
         \<and> (if use_exception_tracer P
              then concat (map (\<lambda>x. render_exception_info P x @ nl) (Non_std # caught w2))
              else ''cannot dump exceptions'' @ nl) \<noteq> []
         \<and> (\<forall>e. fst (safe_main P fn w) \<noteq> Throws e)"
  using assms boundary_throws [of fn w1 Non_std w2 P]
  by (simp add: safe_main_after_setup nl_def)

theorem unclassified_failure_is_contained_witness:
  "safe_main tracer_platform (throws Non_std) initial_world =
     (Returns 1, initial_world\<lparr>cerr := ''Exception type: (unknown type)'' @ nl,
                                  global_locale := [], c_locale := [],
                                  handler_installed := True, terminal_ready := True\<rparr>)
   \<and> safe_main posix_platform (throws Non_std) initial_world =
     (Returns 1, initial_world\<lparr>cerr := ''cannot dump exceptions'' @ nl,
                                  global_locale := [], c_locale := [],
                                  handler_installed := True, terminal_ready := True\<rparr>)"
proof -
  have s: "safe_main_setup tracer_platform initial_world =
     (Returns (), initial_world\<lparr>global_locale := [], c_locale := [],
                                 handler_installed := True, terminal_ready := True\<rparr>)"
    by (simp add: safe_main_setup_def seq_def and_then_def installFatalSignalHandler_def
      set_global_locale_def try_catch_def locale_global_named_def locale_name_def
      set_c_locale_def setlocale_all_def setup_terminal_def returns_def
      posix_platform_def tracer_platform_def initial_world_def)
  show ?thesis
    using unclassified_failure_is_contained [OF s, of "throws Non_std"]
      unclassified_failure_is_contained [OF posix_setup, of "throws Non_std"]
    by (simp add: throws_def tracer_platform_def posix_platform_def initial_world_def)
qed

text \<open>
  C4. The constructors of \<^verbatim>\<open>system_error\<close> that take no code store the value
  \<^verbatim>\<open>errno\<close> has in the state they are called in: every object they return has that
  code, and they return one, leaving the state as it is, whenever the base class
  constructor does not throw.
\<close>

theorem ambient_code_is_captured:
  "(fst (system_error_here P file line w) = Returns obj \<longrightarrow> se_code obj = errno w) \<and>
   (fst (system_error_msg P s file line w) = Returns obj' \<longrightarrow> se_code obj' = errno w) \<and>
   (std_system_error_raises P (errno w) None = None \<longrightarrow>
      system_error_here P file line w =
        (Returns \<lparr>se_code = errno w, se_what = generic_message P (errno w),
                  se_file = file, se_line = line\<rparr>, w)) \<and>
   (std_system_error_raises P (errno w) (Some (c_str s)) = None \<longrightarrow>
      system_error_msg P s file line w =
        (Returns \<lparr>se_code = errno w, se_what = c_str s @ '': '' @ generic_message P (errno w),
                  se_file = file, se_line = line\<rparr>, w))"
  by (auto simp: system_error_here_eq system_error_msg_eq
      system_error_code_cases system_error_msg_code_cases returns_def abort_def
      split: option.splits)

theorem ambient_code_is_captured_witness:
  "system_error_here posix_platform ''file.cpp'' 10 (initial_world\<lparr>errno := 2\<rparr>) =
     (Returns \<lparr>se_code = 2, se_what = ''No such file or directory'',
               se_file = ''file.cpp'', se_line = 10\<rparr>, initial_world\<lparr>errno := 2\<rparr>)
   \<and> system_error_msg posix_platform ''open'' ''file.cpp'' 10 (initial_world\<lparr>errno := 2\<rparr>) =
     (Returns \<lparr>se_code = 2, se_what = ''open: No such file or directory'',
               se_file = ''file.cpp'', se_line = 10\<rparr>, initial_world\<lparr>errno := 2\<rparr>)"
  using ambient_code_is_captured [of posix_platform "''file.cpp''" 10
      "initial_world\<lparr>errno := 2\<rparr>" _ "''open''"]
  by (simp add: posix_platform_def c_str_def initial_world_def)

text \<open>
  C5. The constructors of \<^verbatim>\<open>system_error\<close> that take a code store exactly that code,
  whatever \<^verbatim>\<open>errno\<close> is: every object they return has it, and they return one,
  leaving the state as it is, whenever the base class constructor does not throw.
\<close>

theorem explicit_code_is_stored:
  "(fst (system_error_code P err file line w) = Returns obj \<longrightarrow> se_code obj = err) \<and>
   (fst (system_error_msg_code P s err file line w) = Returns obj' \<longrightarrow> se_code obj' = err) \<and>
   (std_system_error_raises P err None = None \<longrightarrow>
      system_error_code P err file line w =
        (Returns \<lparr>se_code = err, se_what = generic_message P err,
                  se_file = file, se_line = line\<rparr>, w)) \<and>
   (std_system_error_raises P err (Some (c_str s)) = None \<longrightarrow>
      system_error_msg_code P s err file line w =
        (Returns \<lparr>se_code = err, se_what = c_str s @ '': '' @ generic_message P err,
                  se_file = file, se_line = line\<rparr>, w))"
  by (auto simp: system_error_code_cases system_error_msg_code_cases returns_def abort_def
      split: option.splits)

theorem explicit_code_is_stored_witness:
  "system_error_code posix_platform 2 ''file.cpp'' 10 (initial_world\<lparr>errno := 13\<rparr>) =
     (Returns \<lparr>se_code = 2, se_what = ''No such file or directory'',
               se_file = ''file.cpp'', se_line = 10\<rparr>, initial_world\<lparr>errno := 13\<rparr>)
   \<and> system_error_msg_code posix_platform ''open'' 2 ''file.cpp'' 10 (initial_world\<lparr>errno := 13\<rparr>) =
     (Returns \<lparr>se_code = 2, se_what = ''open: No such file or directory'',
               se_file = ''file.cpp'', se_line = 10\<rparr>, initial_world\<lparr>errno := 13\<rparr>)"
  using explicit_code_is_stored [of posix_platform 2 "''file.cpp''" 10
      "initial_world\<lparr>errno := 13\<rparr>" _ "''open''"]
  by (simp add: posix_platform_def c_str_def)

text \<open>
  C6, as stated, fails: the line \<^verbatim>\<open>assertion_failed\<close> writes is not the line
  \<^verbatim>\<open>Assertion <condition> failed in <file>(<line>): <message>\<close>, since the code puts
  the condition between backquotes.
\<close>

theorem assertion_failed_counterexample:
  "cerr (snd (assertion_failed ''x > 0'' ''bad value'' ''a.cpp'' 7 initial_world))
     \<noteq> cerr initial_world @ spec_assertion_line ''x > 0'' ''bad value'' ''a.cpp'' 7"
  by (simp add: assertion_failed_def spec_assertion_line_def seq_def and_then_def write_cerr_def
      abort_def initial_world_def backquote_def)

text \<open>
  C6, amended. For every condition text, message, file and line,
  \<^verbatim>\<open>assertion_failed\<close> appends to \<^verbatim>\<open>std::cerr\<close> the text \<^verbatim>\<open>Assertion\<close>, the condition
  between backquotes, \<^verbatim>\<open>failed in <file>(<line>): <message>\<close> and a newline, the same
  text for the same inputs, and ends the process without returning or throwing.
\<close>

theorem assertion_failed_writes_and_terminates:
  "assertion_failed expr msg file line w =
     (Terminates,
      w\<lparr>cerr := cerr w @ ''Assertion '' @ backquote @ expr @ backquote @ '' failed in '' @ file
            @ ''('' @ show_int line @ ''): '' @ msg @ nl\<rparr>)"
  by (simp add: assertion_failed_def seq_def and_then_def write_cerr_def abort_def)

text \<open>
  C7. Let the other setup steps return, and let the construction of the preferred
  locale fail with a \<^verbatim>\<open>std::exception\<close>. If the classic locale can be set, the setup
  returns with the warning \<^verbatim>\<open>failed to set user default locale\<close> written and the
  classic locale as the global one; if that fails with a \<^verbatim>\<open>std::exception\<close> as well,
  the setup returns with the warning \<^verbatim>\<open>also failed to set classic locale\<close> written
  after the first and the global locale unchanged. In both cases \<^verbatim>\<open>safe_main\<close> goes
  on as the guarded call of the entry point in the state the setup left.
\<close>

theorem locale_failure_is_not_fatal:
  assumes "is_win32 P \<or> install_handler_raises P = None"
    and "setup_terminal_raises P = None"
    and "locale_ctor_raises P (locale_name P) = Some e"
    and "is_std_exception e"
  shows "(global_classic_raises P = None \<longrightarrow>
            (\<exists>w1. safe_main_setup P w = (Returns (), w1)
                \<and> safe_main P fn w = safe_main_boundary P fn w1
                \<and> cerr w1 = cerr w @ ''warning: failed to set user default locale'' @ nl
                      @ (if setlocale_ok P (locale_name P) then []
                         else ''warning: setlocale(LC_ALL, '' @ dquote @ dquote @ '') failed'' @ nl)
                \<and> global_locale w1 = ''C''))
       \<and> (\<forall>e2. global_classic_raises P = Some e2 \<longrightarrow> is_std_exception e2 \<longrightarrow>
            (\<exists>w1. safe_main_setup P w = (Returns (), w1)
                \<and> safe_main P fn w = safe_main_boundary P fn w1
                \<and> cerr w1 = cerr w @ ''warning: failed to set user default locale'' @ nl
                      @ ''warning: also failed to set classic locale'' @ nl
                      @ (if setlocale_ok P (locale_name P) then []
                         else ''warning: setlocale(LC_ALL, '' @ dquote @ dquote @ '') failed'' @ nl)
                \<and> global_locale w1 = global_locale w))"
proof (intro conjI impI allI)
  let ?w0 = "if is_win32 P then w else w\<lparr>handler_installed := True\<rparr>"
  {
    assume c: "global_classic_raises P = None"
    let ?w1 = "(snd (set_c_locale P
                  (?w0\<lparr>cerr := cerr ?w0 @ ''warning: failed to set user default locale'' @ nl,
                       global_locale := ''C''\<rparr>)))\<lparr>terminal_ready := True\<rparr>"
    have s: "safe_main_setup P w = (Returns (), ?w1)"
      by (rule setup_after_locale [OF assms(1) assms(2)])
         (rule set_global_locale_fallback [OF assms(3) assms(4) c])
    have "safe_main P fn w = safe_main_boundary P fn ?w1"
      by (rule safe_main_after_setup [OF s])
    moreover have "cerr ?w1 = cerr w @ ''warning: failed to set user default locale'' @ nl
                      @ (if setlocale_ok P (locale_name P) then []
                         else ''warning: setlocale(LC_ALL, '' @ dquote @ dquote @ '') failed'' @ nl)"
      by (simp add: set_c_locale_result)
    moreover have "global_locale ?w1 = ''C''"
      by (simp add: set_c_locale_result)
    ultimately show "\<exists>w1. safe_main_setup P w = (Returns (), w1)
                \<and> safe_main P fn w = safe_main_boundary P fn w1
                \<and> cerr w1 = cerr w @ ''warning: failed to set user default locale'' @ nl
                      @ (if setlocale_ok P (locale_name P) then []
                         else ''warning: setlocale(LC_ALL, '' @ dquote @ dquote @ '') failed'' @ nl)
                \<and> global_locale w1 = ''C''"
      using s by blast
  }
  {
    fix e2
    assume c: "global_classic_raises P = Some e2" and k: "is_std_exception e2"
    let ?w1 = "(snd (set_c_locale P
                  (?w0\<lparr>cerr := cerr ?w0 @ ''warning: failed to set user default locale'' @ nl
                      @ ''warning: also failed to set classic locale'' @ nl\<rparr>)))\<lparr>terminal_ready := True\<rparr>"
    have s: "safe_main_setup P w = (Returns (), ?w1)"
      by (rule setup_after_locale [OF assms(1) assms(2)])
         (rule set_global_locale_both_fail [OF assms(3) assms(4) c k])
    have "safe_main P fn w = safe_main_boundary P fn ?w1"
      by (rule safe_main_after_setup [OF s])
    moreover have "cerr ?w1 = cerr w @ ''warning: failed to set user default locale'' @ nl
                      @ ''warning: also failed to set classic locale'' @ nl
                      @ (if setlocale_ok P (locale_name P) then []
                         else ''warning: setlocale(LC_ALL, '' @ dquote @ dquote @ '') failed'' @ nl)"
      by (simp add: set_c_locale_result)
    moreover have "global_locale ?w1 = global_locale w"
      by (simp add: set_c_locale_result)
    ultimately show "\<exists>w1. safe_main_setup P w = (Returns (), w1)
                \<and> safe_main P fn w = safe_main_boundary P fn w1
                \<and> cerr w1 = cerr w @ ''warning: failed to set user default locale'' @ nl
                      @ ''warning: also failed to set classic locale'' @ nl
                      @ (if setlocale_ok P (locale_name P) then []
                         else ''warning: setlocale(LC_ALL, '' @ dquote @ dquote @ '') failed'' @ nl)
                \<and> global_locale w1 = global_locale w"
      using s by blast
  }
qed

theorem locale_failure_is_not_fatal_witness:
  "safe_main bad_locale_platform (returns 42) initial_world =
     (Returns 42,
      initial_world\<lparr>cerr := ''warning: failed to set user default locale'' @ nl,
                     global_locale := ''C'', c_locale := [],
                     handler_installed := True, terminal_ready := True\<rparr>)
   \<and> safe_main no_locale_platform (returns 42) initial_world =
     (Returns 42,
      initial_world\<lparr>cerr := ''warning: failed to set user default locale'' @ nl
                         @ ''warning: also failed to set classic locale'' @ nl,
                     c_locale := [],
                     handler_installed := True, terminal_ready := True\<rparr>)"
proof -
  have a: "safe_main_setup bad_locale_platform initial_world =
     (Returns (),
      initial_world\<lparr>cerr := ''warning: failed to set user default locale'' @ nl,
                     global_locale := ''C'', c_locale := [],
                     handler_installed := True, terminal_ready := True\<rparr>)"
    by (simp add: safe_main_setup_def seq_def and_then_def installFatalSignalHandler_def
      set_global_locale_def classic_locale_fallback_def locale_global_classic_def
      try_catch_def locale_global_named_def locale_name_def write_cerr_def throws_def
      set_c_locale_def setlocale_all_def setup_terminal_def returns_def
      bad_locale_platform_def posix_platform_def initial_world_def)
  have b: "safe_main_setup no_locale_platform initial_world =
     (Returns (),
      initial_world\<lparr>cerr := ''warning: failed to set user default locale'' @ nl
                         @ ''warning: also failed to set classic locale'' @ nl,
                     c_locale := [],
                     handler_installed := True, terminal_ready := True\<rparr>)"
    by (simp add: safe_main_setup_def seq_def and_then_def installFatalSignalHandler_def
      set_global_locale_def classic_locale_fallback_def locale_global_classic_def
      try_catch_def locale_global_named_def locale_name_def write_cerr_def throws_def
      set_c_locale_def setlocale_all_def setup_terminal_def returns_def
      no_locale_platform_def bad_locale_platform_def posix_platform_def initial_world_def)
  have c: "safe_main_boundary P (returns 42) w = (Returns 42, w)" for P w
    by (rule boundary_returns) (simp add: returns_def)
  have h1: "is_win32 bad_locale_platform \<or> install_handler_raises bad_locale_platform = None"
    and h2: "setup_terminal_raises bad_locale_platform = None"
    and h3: "locale_ctor_raises bad_locale_platform (locale_name bad_locale_platform) =
               Some (Std_exception ''std::runtime_error'' ''locale name not valid'')"
    and h4: "is_std_exception (Std_exception ''std::runtime_error'' ''locale name not valid'')"
    and h5: "global_classic_raises bad_locale_platform = None"
    by (simp_all add: bad_locale_platform_def posix_platform_def)
  have k1: "is_win32 no_locale_platform \<or> install_handler_raises no_locale_platform = None"
    and k2: "setup_terminal_raises no_locale_platform = None"
    and k3: "locale_ctor_raises no_locale_platform (locale_name no_locale_platform) =
               Some (Std_exception ''std::runtime_error'' ''locale name not valid'')"
    and k5: "global_classic_raises no_locale_platform =
               Some (Std_exception ''std::runtime_error'' ''no classic locale'')"
    and k6: "is_std_exception (Std_exception ''std::runtime_error'' ''no classic locale'')"
    by (simp_all add: no_locale_platform_def bad_locale_platform_def posix_platform_def)
  show ?thesis
    using locale_failure_is_not_fatal [OF h1 h2 h3 h4, of initial_world "returns 42"]
      locale_failure_is_not_fatal [OF k1 k2 k3 h4, of initial_world "returns 42"]
    by (simp add: a b c h5 k5 k6 del: is_std_exception.simps)
qed

text \<open>
  C8, as stated, fails: with the exception tracer, one failure being handled and a
  printer whose text ends with a newline, as folly's does, \<^verbatim>\<open>dump_exceptions\<close> writes
  two lines, not one line for the one failure.
\<close>

theorem dump_exceptions_lines_counterexample:
  "cerr (snd (dump_exceptions folly_platform
       (initial_world\<lparr>caught := [Std_exception ''std::runtime_error'' ''inner'']\<rparr>))) =
     ''Exception type: std::runtime_error (0 frames)'' @ nl @ nl
   \<and> count_lines (cerr (snd (dump_exceptions folly_platform
       (initial_world\<lparr>caught := [Std_exception ''std::runtime_error'' ''inner'']\<rparr>))))
     \<noteq> length (caught (initial_world\<lparr>caught := [Std_exception ''std::runtime_error'' ''inner'']\<rparr>))"
  by (simp add: dump_exceptions_writes folly_platform_def posix_platform_def initial_world_def
      count_lines_def nl_def)

text \<open>
  C8, amended. \<^verbatim>\<open>dump_exceptions\<close> returns (it neither throws nor ends the process).
  With the exception tracer it appends to \<^verbatim>\<open>std::cerr\<close>, for each failure being
  handled and in their order, the tracer's text of the failure followed by a newline:
  the lines written are one for each failure and those inside the tracer's texts.
  Without the tracer it appends the one line \<^verbatim>\<open>cannot dump exceptions\<close> and nothing
  else.
\<close>

theorem dump_exceptions_entries:
  "dump_exceptions P w =
     (Returns (),
      w\<lparr>cerr := cerr w @
         (if use_exception_tracer P
          then concat (map (\<lambda>x. render_exception_info P x @ nl) (caught w))
          else ''cannot dump exceptions'' @ nl)\<rparr>)
   \<and> count_lines (drop (length (cerr w)) (cerr (snd (dump_exceptions P w)))) =
       (if use_exception_tracer P
        then length (caught w)
               + sum_list (map (\<lambda>x. count_lines (render_exception_info P x)) (caught w))
        else 1)"
  by (simp add: dump_exceptions_writes count_lines_entries)
     (simp add: count_lines_def nl_def)

text \<open>
  C9. No constructor of \<^verbatim>\<open>system_error\<close> throws, for any arguments, any state and
  any platform, also one where the base class constructor throws: they are
  \<^verbatim>\<open>noexcept\<close>. Where the base class constructor does not throw, each of the four
  returns an object and leaves the state as it is.
\<close>

theorem constructors_do_not_throw:
  "fst (system_error_here P file line w) \<noteq> Throws e \<and>
   fst (system_error_msg P s file line w) \<noteq> Throws e \<and>
   fst (system_error_msg_code P s err file line w) \<noteq> Throws e \<and>
   fst (system_error_code P err file line w) \<noteq> Throws e \<and>
   ((\<forall>c m. std_system_error_raises P c m = None) \<longrightarrow>
      (\<exists>o1 o2 o3 o4.
          system_error_here P file line w = (Returns o1, w) \<and>
          system_error_msg P s file line w = (Returns o2, w) \<and>
          system_error_msg_code P s err file line w = (Returns o3, w) \<and>
          system_error_code P err file line w = (Returns o4, w)))"
  by (simp add: system_error_here_eq system_error_msg_eq
      system_error_code_cases system_error_msg_code_cases returns_def abort_def
      split: option.splits)

theorem constructors_do_not_throw_witness:
  "fst (system_error_here posix_platform ''file.cpp'' 10 initial_world) =
     Returns \<lparr>se_code = 0, se_what = ''Unknown error'', se_file = ''file.cpp'', se_line = 10\<rparr>
   \<and> fst (system_error_msg no_memory_platform ''open'' ''file.cpp'' 10 initial_world) = Terminates"
proof -
  have "fst (system_error_msg no_memory_platform ''open'' ''file.cpp'' 10 initial_world)
          \<noteq> Throws (Std_exception ''std::bad_alloc'' ''std::bad_alloc'')"
    using constructors_do_not_throw [of no_memory_platform "''file.cpp''" 10 initial_world]
    by simp
  then show ?thesis
    using constructors_do_not_throw [of posix_platform "''file.cpp''" 10 initial_world _ "''open''" 0]
    by (simp add: system_error_here_eq system_error_msg_eq
      system_error_code_cases system_error_msg_code_cases returns_def abort_def
      posix_platform_def no_memory_platform_def initial_world_def)
qed

text \<open>
  C10. When a setup step of \<^verbatim>\<open>safe_main\<close> throws out of the setup, \<^verbatim>\<open>safe_main\<close>
  returns 1 and has appended to \<^verbatim>\<open>std::cerr\<close> the line of the handler that matches the
  failure and then what \<^verbatim>\<open>dump_exceptions\<close> writes: it does what the same boundary
  does for an entry point that throws this failure, and its result does not depend on
  the entry point, which is never called.
\<close>

theorem setup_failure_is_caught:
  assumes "safe_main_setup P w = (Throws e, w1)"
  shows "safe_main P fn w =
           (Returns 1,
            w1\<lparr>cerr := cerr w1 @ headline e
               @ (if use_exception_tracer P
                  then concat (map (\<lambda>x. render_exception_info P x @ nl) (e # caught w1))
                  else ''cannot dump exceptions'' @ nl)\<rparr>)
         \<and> safe_main P fn w = safe_main_boundary P (throws e) w1
         \<and> (\<forall>fn'. safe_main P fn' w = safe_main P fn w)"
  using boundary_throws [of "throws e" w1 e w1 P]
  by (simp add: safe_main_setup_throws [OF assms] throws_def)

theorem setup_failure_is_caught_witness:
  "safe_main no_handler_platform (returns 42) initial_world =
     (Returns 1,
      initial_world\<lparr>cerr := ''ERROR: std::runtime_error: sigaction failed'' @ nl
                         @ ''cannot dump exceptions'' @ nl\<rparr>)
   \<and> safe_main odd_locale_platform (returns 42) initial_world =
     (Returns 1,
      initial_world\<lparr>cerr := ''cannot dump exceptions'' @ nl, handler_installed := True\<rparr>)
   \<and> safe_main no_terminal_platform (returns 42) initial_world =
     (Returns 1,
      initial_world\<lparr>cerr := ''cannot dump exceptions'' @ nl,
                     global_locale := [], c_locale := [], handler_installed := True\<rparr>)"
proof -
  have a: "safe_main_setup no_handler_platform initial_world =
             (Throws (Std_exception ''std::runtime_error'' ''sigaction failed''), initial_world)"
    by (rule setup_throws_from_install)
       (simp_all add: no_handler_platform_def posix_platform_def)
  have b: "safe_main_setup odd_locale_platform initial_world =
             (Throws Non_std, initial_world\<lparr>handler_installed := True\<rparr>)"
    using setup_throws_from_locale [of odd_locale_platform Non_std initial_world]
    by (simp add: odd_locale_platform_def posix_platform_def)
  have c: "safe_main_setup no_terminal_platform initial_world =
             (Throws Non_std, initial_world\<lparr>global_locale := [], c_locale := [],
                                            handler_installed := True\<rparr>)"
    by (simp add: platform_setup_simps installFatalSignalHandler_def
        set_global_locale_def try_catch_def locale_global_named_def locale_name_def
        set_c_locale_result setup_terminal_def throws_def
        no_terminal_platform_def posix_platform_def initial_world_def)
  show ?thesis
    using setup_failure_is_caught [OF a, of "returns 42"]
      setup_failure_is_caught [OF b, of "returns 42"]
      setup_failure_is_caught [OF c, of "returns 42"]
    by (simp add: no_handler_platform_def odd_locale_platform_def no_terminal_platform_def
        posix_platform_def initial_world_def)
qed

end
